theory Spec2Isabelle
  imports Main "HOL-Library.Multiset"
begin
section \<open>Data model\<close>

text \<open>
  The development embeds the evaluation core of \<^verbatim>\<open>components/anal.py\<close> (class
  \<^verbatim>\<open>AnalMixin\<close>) together with \<^verbatim>\<open>_attach_inst\<close> and \<^verbatim>\<open>_clear_all\<close> of
  \<^verbatim>\<open>controller.py\<close>. An exception is a pair of its type name and its message, the two
  parts the completion callback formats as \<^verbatim>\<open>f"{type(exc).__name__}: {exc}"\<close>. A row of
  the strata frame is the pair of its \<^verbatim>\<open>Command\<close> and \<^verbatim>\<open>Strata\<close> cells.
\<close>

type_synonym exn = "string \<times> string"

type_synonym key = "string \<times> string"

text \<open>
  A pandas data frame with unique column labels: the ordered column labels and the rows
  in positional order. A row lists the cells it holds as (column, value) pairs; a column
  that a row has no pair for is a missing value (NaN) of that row.
\<close>

record dataframe =
  columns :: "string list"
  rows :: "(string \<times> string) list list"

text \<open>
  One record as the controller meets it. The engine binding \<^verbatim>\<open>self.p\<close>: the outcome of
  evaluating a command text, what \<^verbatim>\<open>strata()\<close> and \<^verbatim>\<open>table(command, strata)\<close>
  answer after that evaluation (each call raises, \<open>Inl\<close>, or returns, \<open>Inr\<close>;
  \<^verbatim>\<open>strata()\<close> may return \<^verbatim>\<open>None\<close>), and whether
  \<^verbatim>\<open>silent_proc('REPORT show-all')\<close> and \<^verbatim>\<open>eval('RECORD-SIZE ...')\<close> raise
  (\<open>Some\<close> the exception) or return (\<open>None\<close>). Of \<^verbatim>\<open>edf.stat()\<close>:
  \<open>rs_is_integer\<close> is \<^verbatim>\<open>stat()['rs'].is_integer()\<close> and \<open>ext_is_edf\<close> is
  \<^verbatim>\<open>os.path.splitext(stat()['edf_file'])[1].lower() == ".edf"\<close>. And what the handling
  of the record meets outside the modelled files: \<open>question_reply\<close> is whether the
  user answers Yes to the record-size question; \<open>attach_updates\<close> is the exception, if
  any, raised by the calls that end \<^verbatim>\<open>_attach_inst\<close> (from \<^verbatim>\<open>_update_metrics()\<close>
  to \<^verbatim>\<open>_calc_hypnostats()\<close>); \<open>render_populate\<close> that of the two calls that begin
  \<^verbatim>\<open>_render_tables\<close> (\<^verbatim>\<open>edf.annots()\<close>, \<^verbatim>\<open>ssa.populate\<close>) and
  \<open>render_updates\<close> that of the calls that end it (from \<^verbatim>\<open>_update_metrics()\<close> to
  \<^verbatim>\<open>_update_instances\<close>).
\<close>

record inst =
  eval_lunascope :: "string \<Rightarrow> exn + string"
  strata :: "exn + key list option"
  table :: "string \<Rightarrow> string \<Rightarrow> exn + dataframe"
  silent_proc :: "exn option"
  eval_record_size :: "exn option"
  rs_is_integer :: bool
  ext_is_edf :: bool
  question_reply :: bool
  attach_updates :: "exn option"
  render_populate :: "exn option"
  render_updates :: "exn option"

text \<open>
  A finished future of the executor: the call returned, the call raised, or the future
  was cancelled (then \<^verbatim>\<open>exception()\<close> itself raises \<^verbatim>\<open>CancelledError\<close>).
\<close>

datatype future = Returned string | Raised exn | Cancelled

datatype slot = Eval_done_ok | Eval_done_err

text \<open>
  The message boxes of the modelled code. \<^verbatim>\<open>QMessageBox.critical\<close>: "No instance
  attached", "Problem attaching individual ..." with the record id and the error,
  "Evaluation error" with the formatted error text, "Problem generating new EDF" with the
  error. \<^verbatim>\<open>QMessageBox.question\<close>: the fractional record size warning.
  \<^verbatim>\<open>QMessageBox.information\<close>: "Reload EDF".
\<close>

datatype dialog =
  No_instance_attached
  | Problem_attaching string exn
  | Evaluation_error string
  | Record_size_warning
  | Problem_generating_EDF exn
  | Reload_EDF

text \<open>
  The controller object. \<open>proj_inst\<close> is \<^verbatim>\<open>self.proj.inst\<close>, \<open>p\<close> the attached
  record (\<open>None\<close> while the attribute does not exist), \<open>slist\<close> the model of the
  sample list view (column 0, \<open>None\<close> when the view has no model). \<open>jobs\<close> are the
  futures handed to the single worker that have not finished yet, \<open>queued\<close> the slot
  calls posted to the interactive thread with \<^verbatim>\<open>Qt.QueuedConnection\<close> that have not run
  yet, \<open>dialogs\<close> the message boxes shown so far. \<open>anal_tables\<close> is the frame
  the result tree was last built from and \<open>anal_model\<close> the frame last handed to the
  table view. The attributes \<^verbatim>\<open>_proj_tbls\<close> and \<^verbatim>\<open>_proj_results\<close> are read behind
  \<^verbatim>\<open>hasattr\<close> guards that treat a missing attribute like an empty one, and
  \<^verbatim>\<open>_proj_n\<close> is read with default 0, so a missing attribute is the empty list, the
  empty map and 0. Buttons, the blocker overlay, the progress bar, the console text, the
  plots and the engine's variable bindings are not part of the state, and the calls that
  only touch them are taken to return.
\<close>

record state =
  proj_inst :: "string \<Rightarrow> exn + inst"
  p :: "inst option"
  busy :: bool
  project_mode :: bool
  txt_inp :: string
  radio_transpose :: bool
  slist :: "string list option"
  proj_model :: "string list"
  proj_n :: nat
  proj_i :: nat
  proj_tbls :: "key list list"
  proj_results :: "string \<rightharpoonup> dataframe"
  results :: "string \<rightharpoonup> dataframe"
  last_result :: string
  last_exc :: "exn option"
  last_tb :: string
  anal_tables :: "key list"
  anal_model :: "dataframe option"
  dialogs :: "dialog list"
  jobs :: "future list"
  queued :: "slot list"
section \<open>Data frames\<close>

text \<open>
  \<^verbatim>\<open>pd.concat([a, b], ignore_index=True)\<close>: the columns of \<open>a\<close> followed by the new
  columns of \<open>b\<close>, the rows of \<open>a\<close> followed by the rows of \<open>b\<close>, renumbered.
\<close>

definition concat_df :: "dataframe \<Rightarrow> dataframe \<Rightarrow> dataframe" where
  "concat_df a b =
     \<lparr>columns = columns a @ filter (\<lambda>c. c \<notin> set (columns a)) (columns b),
      rows = rows a @ rows b\<rparr>"

text \<open>
  \<^verbatim>\<open>tbl.drop(columns=[c])\<close>: without such a column it raises
  \<^verbatim>\<open>KeyError("['c'] not found in axis")\<close> (the label is printed in apostrophes).
\<close>

definition drop_columns :: "string \<Rightarrow> dataframe \<Rightarrow> exn + dataframe" where
  "drop_columns c t =
     (if c \<in> set (columns t)
      then Inr \<lparr>columns = filter (\<lambda>x. x \<noteq> c) (columns t),
                rows = map (filter (\<lambda>kv. fst kv \<noteq> c)) (rows t)\<rparr>
      else Inl (''KeyError'', ''['' @ [CHR 0x27] @ c @ [CHR 0x27] @ ''] not found in axis''))"

text \<open>\<^verbatim>\<open>drop_duplicates\<close> keeps the first row of every group of equal rows.\<close>

primrec drop_seen :: "'a list \<Rightarrow> 'a list \<Rightarrow> 'a list" where
  "drop_seen seen [] = []"
| "drop_seen seen (x # xs) =
     (if x \<in> set seen then drop_seen seen xs else x # drop_seen (x # seen) xs)"

definition drop_duplicates :: "'a list \<Rightarrow> 'a list" where
  "drop_duplicates xs = drop_seen [] xs"

text \<open>Decimal rendering of a natural number, Python's \<^verbatim>\<open>str(i)\<close>.\<close>

fun str_nat :: "nat \<Rightarrow> string" where
  "str_nat n =
     (if n < 10 then [''0123456789'' ! n]
      else str_nat (n div 10) @ [''0123456789'' ! (n mod 10)])"

text \<open>
  The transposed view of \<^verbatim>\<open>_update_table\<close>: \<^verbatim>\<open>tbl.T.reset_index()\<close> with the columns
  renamed to \<^verbatim>\<open>VAR, row1, row2, ...\<close>: one row per column of \<open>t\<close>, holding the
  column's label and its value in each row of \<open>t\<close>.
\<close>

definition transpose_df :: "dataframe \<Rightarrow> dataframe" where
  "transpose_df t =
     \<lparr>columns = ''VAR'' # map (\<lambda>i. ''row'' @ str_nat i) [1..<Suc (length (rows t))],
      rows = map (\<lambda>c. (''VAR'', c) #
                 concat (map (\<lambda>ir. case map_of (snd ir) c of
                                       None \<Rightarrow> []
                                     | Some v \<Rightarrow> [(''row'' @ str_nat (Suc (fst ir)), v)])
                             (enumerate 0 (rows t))))
               (columns t)\<rparr>"
section \<open>Result keys and accumulation\<close>

text \<open>The dictionary key \<^verbatim>\<open>f"{row.Command}_{row.Strata}"\<close>.\<close>

definition key_of :: "key \<Rightarrow> string" where
  "key_of k = fst k @ ''_'' @ snd k"

text \<open>
  The loop of \<^verbatim>\<open>_render_tables\<close>: every table is fetched and stored under its key,
  replacing what was there. A raising \<^verbatim>\<open>table\<close> call ends the loop and keeps what was
  stored before it.
\<close>

fun store_tables :: "inst \<Rightarrow> key list \<Rightarrow> (string \<rightharpoonup> dataframe) \<Rightarrow> exn option \<times> (string \<rightharpoonup> dataframe)" where
  "store_tables q [] m = (None, m)"
| "store_tables q (k # ks) m =
     (case table q (fst k) (snd k) of
        Inl e \<Rightarrow> (Some e, m)
      | Inr df \<Rightarrow> store_tables q ks (m(key_of k \<mapsto> df)))"

text \<open>
  The loop of \<^verbatim>\<open>_accumulate_project_results\<close>: every table is fetched and either
  concatenated onto the table already held under its key or inserted
  (\<open>merge_into\<close> is the \<^verbatim>\<open>if key in self._proj_results\<close> statement of the body).
\<close>

definition merge_into :: "(string \<rightharpoonup> dataframe) \<Rightarrow> string \<Rightarrow> dataframe \<Rightarrow> (string \<rightharpoonup> dataframe)" where
  "merge_into m x df =
     (case m x of
        Some old \<Rightarrow> m(x \<mapsto> concat_df old df)
      | None \<Rightarrow> m(x \<mapsto> df))"

fun accumulate_rows :: "inst \<Rightarrow> key list \<Rightarrow> (string \<rightharpoonup> dataframe) \<Rightarrow> exn option \<times> (string \<rightharpoonup> dataframe)" where
  "accumulate_rows q [] m = (None, m)"
| "accumulate_rows q (k # ks) m =
     (case table q (fst k) (snd k) of
        Inl e \<Rightarrow> (Some e, m)
      | Inr df \<Rightarrow> accumulate_rows q ks (merge_into m (key_of k) df))"

text \<open>
  \<^verbatim>\<open>except RuntimeError\<close> catches \<^verbatim>\<open>RuntimeError\<close> and its built-in subclasses.
  \<open>silent_guard\<close> is the statement
  \<^verbatim>\<open>try: self.p.silent_proc('REPORT show-all') except RuntimeError: pass\<close>: the exception
  that leaves it.
\<close>

definition is_RuntimeError :: "string \<Rightarrow> bool" where
  "is_RuntimeError kind =
     (kind = ''RuntimeError'' \<or> kind = ''NotImplementedError'' \<or> kind = ''RecursionError'')"

definition silent_guard :: "inst \<Rightarrow> exn option" where
  "silent_guard q =
     (case silent_proc q of
        None \<Rightarrow> None
      | Some e \<Rightarrow> if is_RuntimeError (fst e) then None else Some e)"

definition accumulate_project_results :: "inst \<Rightarrow> key list option \<Rightarrow> state \<Rightarrow> exn option \<times> state" where
  "accumulate_project_results q tbls s =
     (case tbls of
        None \<Rightarrow> (None, s)
      | Some ks \<Rightarrow>
          (let s1 = s\<lparr>proj_tbls := proj_tbls s @ [ks]\<rparr>;
               r = accumulate_rows q ks (proj_results s1);
               s2 = s1\<lparr>proj_results := snd r\<rparr>
           in case fst r of
                Some e \<Rightarrow> (Some e, s2)
              | None \<Rightarrow> (silent_guard q, s2)))"

definition render_tables :: "inst \<Rightarrow> key list option \<Rightarrow> state \<Rightarrow> exn option \<times> state" where
  "render_tables q tbls s =
     (case render_populate q of
        Some e \<Rightarrow> (Some e, s)
      | None \<Rightarrow>
          (let r = (case tbls of
                      None \<Rightarrow> (None, s)
                    | Some ks \<Rightarrow>
                        (let s1 = s\<lparr>anal_tables := ks, results := Map.empty\<rparr>;
                             st = store_tables q ks (results s1)
                         in (fst st, s1\<lparr>results := snd st\<rparr>)))
           in case fst r of
                Some e \<Rightarrow> (Some e, snd r)
              | None \<Rightarrow>
                  (case silent_guard q of
                     Some e \<Rightarrow> (Some e, snd r)
                   | None \<Rightarrow> (render_updates q, snd r))))"
section \<open>Attaching a record and submitting a job\<close>

definition clear_all :: "state \<Rightarrow> state" where
  "clear_all s = s\<lparr>anal_tables := [], anal_model := None\<rparr>"

text \<open>
  \<^verbatim>\<open>_attach_inst\<close> for a valid index whose column 0 holds \<open>ident\<close>; the first
  component is the exception that leaves the call. A record that cannot be attached is
  reported and leaves \<^verbatim>\<open>self.p\<close> as it was. For an attached record with a
  fractional record size the new file name is built: the branch for a name that does not
  end in \<^verbatim>\<open>.edf\<close> reads the name \<^verbatim>\<open>path\<close>, which is bound nowhere, and raises
  \<^verbatim>\<open>NameError\<close>; otherwise the user is asked, and on Yes the record is rewritten
  (a failure is reported, the reload notice is shown from the \<^verbatim>\<open>finally\<close> clause
  either way) and the call returns. In the other cases the call ends with the update
  calls.
\<close>

definition attach_inst :: "string \<Rightarrow> state \<Rightarrow> exn option \<times> state" where
  "attach_inst ident s =
     (let s1 = clear_all s in
      case proj_inst s1 ident of
        Inl e \<Rightarrow> (None, s1\<lparr>dialogs := dialogs s1 @ [Problem_attaching ident e]\<rparr>)
      | Inr q \<Rightarrow>
          (let s2 = s1\<lparr>p := Some q\<rparr> in
           if \<not> rs_is_integer q then
             (if \<not> ext_is_edf q then (Some (''NameError'', ''name 'path' is not defined''), s2)
              else
                (let s3 = s2\<lparr>dialogs := dialogs s2 @ [Record_size_warning]\<rparr> in
                 if question_reply q then
                   (case eval_record_size q of
                      Some e \<Rightarrow>
                        (None, s3\<lparr>dialogs := dialogs s3 @ [Problem_generating_EDF e, Reload_EDF]\<rparr>)
                    | None \<Rightarrow> (None, s3\<lparr>dialogs := dialogs s3 @ [Reload_EDF]\<rparr>))
                 else (attach_updates q, s3)))
           else (attach_updates q, s2)))"

text \<open>The future that the worker produces for a call of \<^verbatim>\<open>eval_lunascope\<close>.\<close>

definition submit :: "inst \<Rightarrow> string \<Rightarrow> future" where
  "submit q cmd = (case eval_lunascope q cmd of Inl e \<Rightarrow> Raised e | Inr r \<Rightarrow> Returned r)"

definition exec_luna :: "state \<Rightarrow> state" where
  "exec_luna s =
     (case p s of
        None \<Rightarrow> s\<lparr>dialogs := dialogs s @ [No_instance_attached]\<rparr>
      | Some q \<Rightarrow>
          if busy s then s
          else
            (let s1 = (if \<not> project_mode s then s\<lparr>anal_tables := [], anal_model := None\<rparr> else s);
                 s2 = s1\<lparr>busy := True\<rparr>
             in s2\<lparr>jobs := jobs s2 @ [submit q (txt_inp s2)]\<rparr>))"

definition exec_single_luna :: "state \<Rightarrow> state" where
  "exec_single_luna s = exec_luna (s\<lparr>project_mode := False\<rparr>)"

text \<open>
  The callback \<^verbatim>\<open>done\<close> that the worker runs when the future has finished. Reading a
  cancelled future raises inside the \<^verbatim>\<open>try\<close> block and is handled by its
  \<^verbatim>\<open>except\<close> branch.
\<close>

definition done_callback :: "future \<Rightarrow> state \<Rightarrow> state" where
  "done_callback f s =
     (case f of
        Returned r \<Rightarrow> s\<lparr>last_result := r, queued := queued s @ [Eval_done_ok]\<rparr>
      | Raised e \<Rightarrow>
          s\<lparr>last_exc := Some e, last_tb := fst e @ '': '' @ snd e,
            queued := queued s @ [Eval_done_err]\<rparr>
      | Cancelled \<Rightarrow>
          s\<lparr>last_exc := Some (''CancelledError'', ''''),
            last_tb := ''CancelledError'' @ '': '' @ '''',
            queued := queued s @ [Eval_done_err]\<rparr>)"
section \<open>Project evaluation\<close>

definition finish_project_eval :: "state \<Rightarrow> state" where
  "finish_project_eval s =
     (if proj_tbls s = [] then s
      else s\<lparr>results := proj_results s,
             anal_tables := drop_duplicates (concat (proj_tbls s))\<rparr>)"

text \<open>
  \<^verbatim>\<open>_proj_eval_next\<close>; the first component is the exception that leaves the call.
  \<open>proj_model\<close> is the list of record ids of the model. For a row that the model no
  longer has, \<^verbatim>\<open>data(idx)\<close> is \<^verbatim>\<open>None\<close> and building the console text raises
  \<^verbatim>\<open>TypeError\<close>. An exception that leaves \<^verbatim>\<open>_attach_inst\<close> leaves this call
  too, before \<^verbatim>\<open>_exec_luna\<close>.
\<close>

definition proj_eval_next :: "state \<Rightarrow> exn option \<times> state" where
  "proj_eval_next s =
     (if proj_i s \<ge> proj_n s then (None, finish_project_eval s)
      else
        (case drop (proj_i s) (proj_model s) of
           [] \<Rightarrow>
             (Some (''TypeError'',
                    ''can only concatenate str (not '' @ [CHR 0x22] @ ''NoneType''
                      @ [CHR 0x22] @ '') to str''), s)
         | ident # _ \<Rightarrow>
             (let a = attach_inst ident s in
              case fst a of
                Some e \<Rightarrow> (Some e, snd a)
              | None \<Rightarrow> (None, exec_luna (snd a)))))"

definition proj_eval :: "state \<Rightarrow> exn option \<times> state" where
  "proj_eval s =
     (case slist s of
        None \<Rightarrow> (None, s)
      | Some ids \<Rightarrow>
          proj_eval_next
            (s\<lparr>project_mode := True, anal_tables := [], anal_model := None,
               proj_model := ids, proj_n := length ids, proj_i := 0,
               proj_tbls := [], proj_results := Map.empty\<rparr>))"

text \<open>
  The statements that end both completion slots:
  \<^verbatim>\<open>if project_mode and _proj_n > 0: self._proj_i += 1; self._proj_eval_next()\<close>.
\<close>

definition advance :: "state \<Rightarrow> exn option \<times> state" where
  "advance s = proj_eval_next (s\<lparr>proj_i := proj_i s + 1\<rparr>)"

definition project_advance :: "state \<Rightarrow> exn option \<times> state" where
  "project_advance s = (if project_mode s \<and> proj_n s > 0 then advance s else (None, s))"

text \<open>The unlock sequence that begins the \<^verbatim>\<open>finally\<close> block of both slots.\<close>

definition unlock :: "state \<Rightarrow> state" where
  "unlock s = s\<lparr>busy := False\<rparr>"

text \<open>
  \<^verbatim>\<open>_eval_done_ok\<close>. The body pulls the tables. Its \<^verbatim>\<open>finally\<close> block unlocks and
  advances a project run. An exception raised in the body leaves the slot after the
  \<^verbatim>\<open>finally\<close> block, unless that block raises itself: then its exception leaves
  the slot.
\<close>

definition eval_done_ok_body :: "state \<Rightarrow> exn option \<times> state" where
  "eval_done_ok_body s =
     (case p s of
        None \<Rightarrow>
          (Some (''AttributeError'',
                 [CHR 0x27] @ ''Controller' object has no attribute 'p'' @ [CHR 0x27]), s)
      | Some q \<Rightarrow>
          (case strata q of
             Inl e \<Rightarrow> (Some e, s)
           | Inr tbls \<Rightarrow>
               if project_mode s then accumulate_project_results q tbls s
               else render_tables q tbls s))"

definition eval_done_ok :: "state \<Rightarrow> exn option \<times> state" where
  "eval_done_ok s =
     (let r = eval_done_ok_body s;
          f = project_advance (unlock (snd r))
      in (case fst f of Some e \<Rightarrow> Some e | None \<Rightarrow> fst r, snd f))"

text \<open>
  \<^verbatim>\<open>_eval_done_err\<close>. The body shows the error. The \<^verbatim>\<open>finally\<close> block unlocks,
  calls \<^verbatim>\<open>silent_proc\<close> guarded for \<^verbatim>\<open>RuntimeError\<close>, and advances a project run;
  another exception of \<^verbatim>\<open>silent_proc\<close> (or a missing \<^verbatim>\<open>self.p\<close>) leaves the
  slot before the advance.
\<close>

definition eval_done_err :: "state \<Rightarrow> exn option \<times> state" where
  "eval_done_err s =
     (let s1 = unlock (s\<lparr>dialogs := dialogs s @ [Evaluation_error (last_tb s)]\<rparr>) in
      case p s1 of
        None \<Rightarrow>
          (Some (''AttributeError'',
                 [CHR 0x27] @ ''Controller' object has no attribute 'p'' @ [CHR 0x27]), s1)
      | Some q \<Rightarrow>
          (case silent_guard q of
             Some e \<Rightarrow> (Some e, s1)
           | None \<Rightarrow> project_advance s1))"

section \<open>Displaying a stored table\<close>

text \<open>
  \<^verbatim>\<open>_update_table\<close>. \<^verbatim>\<open>coerce_numeric_df\<close> is defined outside the modelled files and
  is a parameter. A key that \<^verbatim>\<open>self.results\<close> does not hold raises \<^verbatim>\<open>KeyError\<close> with
  the key.
\<close>

definition update_table :: "(dataframe \<Rightarrow> dataframe) \<Rightarrow> string \<Rightarrow> string \<Rightarrow> state \<Rightarrow> exn + state" where
  "update_table coerce_numeric_df cmd stratum s =
     (case results s (key_of (cmd, stratum)) of
        None \<Rightarrow> Inl (''KeyError'', key_of (cmd, stratum))
      | Some tbl \<Rightarrow>
          (case (if \<not> project_mode s then drop_columns ''ID'' tbl else Inr tbl) of
             Inl e \<Rightarrow> Inl e
           | Inr t1 \<Rightarrow>
               Inr (s\<lparr>anal_model :=
                        Some (if radio_transpose s
                              then transpose_df (coerce_numeric_df t1) else t1)\<rparr>)))"
section \<open>The worker and the interactive thread\<close>

text \<open>The single worker finishes its oldest job and runs the callback on it.\<close>

definition worker_finish :: "state \<Rightarrow> state" where
  "worker_finish s =
     (case jobs s of
        [] \<Rightarrow> s
      | f # fs \<Rightarrow> done_callback f (s\<lparr>jobs := fs\<rparr>))"

text \<open>
  The event loop of the interactive thread runs the oldest posted slot call. An
  exception that leaves a slot or a handler of a user action is reported by the event
  loop and changes nothing else.
\<close>

definition run_slot :: "state \<Rightarrow> exn option \<times> state" where
  "run_slot s =
     (case queued s of
        [] \<Rightarrow> (None, s)
      | sl # rest \<Rightarrow>
          (case sl of
             Eval_done_ok \<Rightarrow> eval_done_ok (s\<lparr>queued := rest\<rparr>)
           | Eval_done_err \<Rightarrow> eval_done_err (s\<lparr>queued := rest\<rparr>)))"

datatype event =
  Click_exec
  | Menu_proj_eval
  | Select_record string
  | Edit_script string
  | Load_slist "string list"
  | Worker_done
  | Slot_run

fun step :: "state \<Rightarrow> event \<Rightarrow> state" where
  "step s Click_exec = exec_single_luna s"
| "step s Menu_proj_eval = snd (proj_eval s)"
| "step s (Select_record ident) = snd (attach_inst ident s)"
| "step s (Edit_script cmd) = s\<lparr>txt_inp := cmd\<rparr>"
| "step s (Load_slist ids) = s\<lparr>slist := Some ids\<rparr>"
| "step s Worker_done = worker_finish s"
| "step s Slot_run = snd (run_slot s)"

definition run :: "state \<Rightarrow> event list \<Rightarrow> state" where
  "run s es = foldl step s es"

text \<open>The controller after \<^verbatim>\<open>__init__\<close>, for an engine \<open>w\<close>.\<close>

definition init :: "(string \<Rightarrow> exn + inst) \<Rightarrow> state" where
  "init w =
     \<lparr>proj_inst = w, p = None, busy = False, project_mode = False, txt_inp = '''',
      radio_transpose = False, slist = None, proj_model = [], proj_n = 0, proj_i = 0,
      proj_tbls = [], proj_results = Map.empty, results = Map.empty, last_result = '''',
      last_exc = None, last_tb = '''', anal_tables = [], anal_model = None, dialogs = [],
      jobs = [], queued = []\<rparr>"

text \<open>One job from the worker's completion to the end of its slot.\<close>

definition complete :: "state \<Rightarrow> state" where
  "complete s = snd (run_slot (worker_finish s))"
section \<open>Notions used in the statements\<close>

text \<open>The rows held under a key, none when the key is absent.\<close>

definition rows_at :: "(string \<rightharpoonup> dataframe) \<Rightarrow> string \<Rightarrow> (string \<times> string) list list" where
  "rows_at m k = (case m k of None \<Rightarrow> [] | Some t \<Rightarrow> rows t)"

text \<open>Every \<^verbatim>\<open>table\<close> call for the rows of a strata frame returns.\<close>

definition tables_ok :: "inst \<Rightarrow> key list \<Rightarrow> bool" where
  "tables_ok q ks = (\<forall>k \<in> set ks. \<exists>df. table q (fst k) (snd k) = Inr df)"

text \<open>
  A concrete record for the examples: its evaluation returns, its strata frame is
  \<open>ks\<close>, each of these tables has \<open>n\<close> rows with the columns \<^verbatim>\<open>ID\<close> and
  \<^verbatim>\<open>V\<close>, its record size is integral and no other call raises.
\<close>

definition ex_df :: "string \<Rightarrow> nat \<Rightarrow> dataframe" where
  "ex_df ident n =
     \<lparr>columns = [''ID'', ''V''],
      rows = map (\<lambda>i. [(''ID'', ident), (''V'', str_nat i)]) [0..<n]\<rparr>"

definition ex_inst :: "string \<Rightarrow> key list \<Rightarrow> nat \<Rightarrow> inst" where
  "ex_inst ident ks n =
     \<lparr>eval_lunascope = (\<lambda>cmd. Inr ''ok''),
      strata = Inr (Some ks),
      table = (\<lambda>c st. if (c, st) \<in> set ks then Inr (ex_df ident n)
                      else Inl (''RuntimeError'', ''no such table'')),
      silent_proc = None, eval_record_size = None, rs_is_integer = True, ext_is_edf = True,
      question_reply = False, attach_updates = None, render_populate = None,
      render_updates = None\<rparr>"

text \<open>An engine that attaches no record.\<close>

definition no_engine :: "string \<Rightarrow> exn + inst" where
  "no_engine ident = Inl (''RuntimeError'', ident)"

text \<open>
  The invariant of the single lane: a set busy flag means that a record is attached and
  that exactly one job is either with the worker or posted as a slot call; a clear busy
  flag means there is none.
\<close>

definition lane_inv :: "state \<Rightarrow> bool" where
  "lane_inv s =
     ((busy s \<longrightarrow> p s \<noteq> None) \<and>
      length (jobs s) + length (queued s) = (if busy s then 1 else 0))"

text \<open>
  An engine for the examples. Record \<^verbatim>\<open>r1\<close> yields table (X, Y) with 3 rows; the
  evaluation of \<^verbatim>\<open>r2\<close> raises; \<^verbatim>\<open>r3\<close> yields the tables (X, Y) and (Z, W) with 5
  rows each; \<^verbatim>\<open>strata()\<close> raises for \<^verbatim>\<open>r4\<close> and returns \<^verbatim>\<open>None\<close> for
  \<^verbatim>\<open>r5\<close>; \<^verbatim>\<open>r6\<close> yields table (X, Y) with 2 rows and has a fractional record size
  and a file name that does not end in \<^verbatim>\<open>.edf\<close>; any other record cannot be attached.
\<close>

definition ex_engine :: "string \<Rightarrow> exn + inst" where
  "ex_engine ident =
     (if ident = ''r1'' then Inr (ex_inst ''r1'' [(''X'', ''Y'')] 3)
      else if ident = ''r2'' then
        Inr ((ex_inst ''r2'' [(''X'', ''Y'')] 4)\<lparr>eval_lunascope := (\<lambda>cmd. Inl (''RuntimeError'', ''bad command''))\<rparr>)
      else if ident = ''r3'' then Inr (ex_inst ''r3'' [(''X'', ''Y''), (''Z'', ''W'')] 5)
      else if ident = ''r4'' then
        Inr ((ex_inst ''r4'' [] 0)\<lparr>strata := Inl (''RuntimeError'', ''no strata'')\<rparr>)
      else if ident = ''r5'' then Inr ((ex_inst ''r5'' [] 0)\<lparr>strata := Inr None\<rparr>)
      else if ident = ''r6'' then
        Inr ((ex_inst ''r6'' [(''X'', ''Y'')] 2)\<lparr>rs_is_integer := False, ext_is_edf := False\<rparr>)
      else Inl (''RuntimeError'', ''no such record''))"











text \<open>
  A project run in progress at record \<open>k\<close>: the record is attached and its job is
  with the worker. A finished project run.
\<close>

definition running :: "string list \<Rightarrow> nat \<Rightarrow> state \<Rightarrow> bool" where
  "running ids k s =
     (project_mode s \<and> proj_model s = ids \<and> proj_n s = length ids \<and> proj_i s = k
      \<and> k < length ids \<and> busy s \<and> queued s = [] \<and> anal_tables s = []
      \<and> p s = Some (projr (proj_inst s (ids ! k)))
      \<and> jobs s = [submit (projr (proj_inst s (ids ! k))) (txt_inp s)])"

definition finished :: "string list \<Rightarrow> state \<Rightarrow> bool" where
  "finished ids s =
     (project_mode s \<and> proj_n s = length ids \<and> proj_i s = length ids
      \<and> \<not> busy s \<and> jobs s = [] \<and> queued s = []
      \<and> anal_tables s = drop_duplicates (concat (proj_tbls s))
      \<and> (proj_tbls s \<noteq> [] \<longrightarrow> results s = proj_results s))"




section \<open>Accumulation is append-only\<close>

lemma tables_ok_Cons: "tables_ok q (k # ks) = ((\<exists>df. table q (fst k) (snd k) = Inr df) \<and> tables_ok q ks)"
  by (simp add: tables_ok_def)

lemma rows_concat_df: "rows (concat_df a b) = rows a @ rows b"
  by (simp add: concat_df_def)

lemma dom_merge_into: "dom (merge_into m x df) = insert x (dom m)"
  by (simp add: merge_into_def split: option.splits)



lemma rows_at_merge_into:
  "rows_at (merge_into m x df) y = rows_at m y @ (if y = x then rows df else [])"
  by (simp add: rows_at_def merge_into_def rows_concat_df split: option.splits)

lemma accumulate_rows_ok: "tables_ok q ks \<Longrightarrow> fst (accumulate_rows q ks m) = None"
  by (induction ks arbitrary: m) (auto simp: tables_ok_Cons)

lemma accumulate_rows_dom:
  "tables_ok q ks \<Longrightarrow> dom (snd (accumulate_rows q ks m)) = dom m \<union> key_of ` set ks"
proof (induction ks arbitrary: m)
  case Nil
  then show ?case by simp
next
  case (Cons k ks)
  from Cons.prems obtain df where df: "table q (fst k) (snd k) = Inr df" and ok: "tables_ok q ks"
    by (auto simp: tables_ok_Cons)
  show ?case using Cons.IH[OF ok, of "merge_into m (key_of k) df"] df
    by (simp add: dom_merge_into)
qed

lemma accumulate_rows_rows:
  "tables_ok q ks \<Longrightarrow>
   rows_at (snd (accumulate_rows q ks m)) x =
   rows_at m x @ concat (map (\<lambda>k. rows (projr (table q (fst k) (snd k)))) (filter (\<lambda>k. key_of k = x) ks))"
proof (induction ks arbitrary: m)
  case Nil
  then show ?case by simp
next
  case (Cons k ks)
  from Cons.prems obtain df where df: "table q (fst k) (snd k) = Inr df" and ok: "tables_ok q ks"
    by (auto simp: tables_ok_Cons)
  show ?case using Cons.IH[OF ok, of "merge_into m (key_of k) df"] df
    by (simp add: rows_at_merge_into)
qed





lemma key_of_eq: "key_of = (\<lambda>k. fst k @ ''_'' @ snd k)"
  by (rule ext) (simp add: key_of_def)



section \<open>The combined index\<close>

lemma set_drop_seen: "set (drop_seen seen xs) = set xs - set seen"
  by (induction xs arbitrary: seen) auto

lemma distinct_drop_seen: "distinct (drop_seen seen xs)"
  by (induction xs arbitrary: seen) (auto simp: set_drop_seen)

lemma drop_seen_snoc:
  "drop_seen seen (xs @ [x]) =
     (if x \<in> set seen \<union> set xs then drop_seen seen xs else drop_seen seen xs @ [x])"
  by (induction xs arbitrary: seen) auto

lemma drop_seen_cong: "set s1 = set s2 \<Longrightarrow> drop_seen s1 xs = drop_seen s2 xs"
proof (induction xs arbitrary: s1 s2)
  case Nil
  show ?case by simp
next
  case (Cons x xs)
  from Cons.prems have mem: "x \<in> set s1 \<longleftrightarrow> x \<in> set s2" by blast
  from Cons.prems have "set (x # s1) = set (x # s2)" by simp
  then have a: "drop_seen (x # s1) xs = drop_seen (x # s2) xs" by (rule Cons.IH)
  have b: "drop_seen s1 xs = drop_seen s2 xs" using Cons.prems by (rule Cons.IH)
  show ?case by (simp add: mem a b)
qed

lemma drop_seen_append:
  "drop_seen (a @ b) xs = drop_seen b (filter (\<lambda>y. y \<notin> set a) xs)"
proof (induction xs arbitrary: b)
  case Nil
  then show ?case by simp
next
  case (Cons x xs)
  show ?case
  proof (cases "x \<in> set a")
    case True
    then show ?thesis using Cons.IH[of b] by simp
  next
    case False
    show ?thesis
    proof (cases "x \<in> set b")
      case True
      then show ?thesis using False Cons.IH[of b] by simp
    next
      case xb: False
      have "drop_seen (x # a @ b) xs = drop_seen (a @ x # b) xs"
        by (rule drop_seen_cong) auto
      also have "\<dots> = drop_seen (x # b) (filter (\<lambda>y. y \<notin> set a) xs)"
        by (rule Cons.IH)
      finally show ?thesis using False xb by simp
    qed
  qed
qed

lemma drop_duplicates_Nil: "drop_duplicates [] = []"
  by (simp add: drop_duplicates_def)

lemma set_drop_duplicates: "set (drop_duplicates xs) = set xs"
  by (simp add: drop_duplicates_def set_drop_seen)

lemma distinct_drop_duplicates: "distinct (drop_duplicates xs)"
  by (simp add: drop_duplicates_def distinct_drop_seen)

lemma drop_duplicates_snoc:
  "drop_duplicates (xs @ [x]) =
     (if x \<in> set xs then drop_duplicates xs else drop_duplicates xs @ [x])"
  by (simp add: drop_duplicates_def drop_seen_snoc)

lemma drop_duplicates_Cons:
  "drop_duplicates (x # xs) = x # drop_duplicates (filter (\<lambda>y. y \<noteq> x) xs)"
  using drop_seen_append[of "[x]" "[]" xs] by (simp add: drop_duplicates_def)

lemma drop_duplicates_distinct: "distinct xs \<Longrightarrow> drop_duplicates xs = xs"
  by (induction xs rule: rev_induct) (auto simp: drop_duplicates_snoc drop_duplicates_Nil)

lemma drop_duplicates_first:
  "drop_duplicates xs = map ((!) xs) (filter (\<lambda>i. xs ! i \<notin> set (take i xs)) [0..<length xs])"
proof (induction xs rule: rev_induct)
  case Nil
  then show ?case by (simp add: drop_duplicates_Nil)
next
  case (snoc x xs)
  have a: "filter (\<lambda>i. (xs @ [x]) ! i \<notin> set (take i (xs @ [x]))) [0..<length xs]
         = filter (\<lambda>i. xs ! i \<notin> set (take i xs)) [0..<length xs]"
    by (rule filter_cong) (auto simp: nth_append)
  have b: "map ((!) (xs @ [x])) (filter (\<lambda>i. xs ! i \<notin> set (take i xs)) [0..<length xs])
         = map ((!) xs) (filter (\<lambda>i. xs ! i \<notin> set (take i xs)) [0..<length xs])"
    by (rule map_cong) (auto simp: nth_append)
  show ?case using snoc a b by (simp add: drop_duplicates_snoc)
qed

text \<open>
  Claim C7. When at least one key frame was collected, \<^verbatim>\<open>_finish_project_eval\<close>
  concatenates the key frames in the order they were appended (record order) and drops
  duplicate (command, stratum) rows: the index keeps exactly the rows of the
  concatenation that did not occur at an earlier position, in their order, so of equal
  keys the first occurrence is the one kept; the index has no duplicates and the same
  keys as the concatenation. The aggregate map is left as it is and becomes the result
  set \<^verbatim>\<open>self.results\<close>.
\<close>

theorem finish_project_eval_index:
  assumes "proj_tbls s \<noteq> []"
  shows "finish_project_eval s =
           s\<lparr>results := proj_results s, anal_tables := drop_duplicates (concat (proj_tbls s))\<rparr>
       \<and> anal_tables (finish_project_eval s) =
           map ((!) (concat (proj_tbls s)))
             (filter (\<lambda>i. concat (proj_tbls s) ! i \<notin> set (take i (concat (proj_tbls s))))
                [0..<length (concat (proj_tbls s))])
       \<and> distinct (anal_tables (finish_project_eval s))
       \<and> set (anal_tables (finish_project_eval s)) = set (concat (proj_tbls s))
       \<and> results (finish_project_eval s) = proj_results s
       \<and> proj_results (finish_project_eval s) = proj_results s
       \<and> proj_tbls (finish_project_eval s) = proj_tbls s"
  using assms
  by (simp add: finish_project_eval_def distinct_drop_duplicates set_drop_duplicates
      drop_duplicates_first[symmetric])

section \<open>Advancing a finished project run\<close>

text \<open>
  Claim C9. Once the index has reached the record count, \<^verbatim>\<open>_proj_eval_next\<close> only
  runs \<^verbatim>\<open>_finish_project_eval\<close>: the aggregate map, the key-frame list, the queue of
  the worker, the posted slot calls, the busy flag and the dialogs are unchanged, so no
  record is evaluated; calling it twice is the same as calling it once. The same holds
  for the advance of the completion slots (increment, then \<^verbatim>\<open>_proj_eval_next\<close>),
  after which the run is still finished.
\<close>

theorem advance_when_finished:
  assumes "proj_n s \<le> proj_i s"
  shows "proj_eval_next s = (None, finish_project_eval s)
       \<and> proj_results (snd (proj_eval_next s)) = proj_results s
       \<and> proj_tbls (snd (proj_eval_next s)) = proj_tbls s
       \<and> jobs (snd (proj_eval_next s)) = jobs s
       \<and> queued (snd (proj_eval_next s)) = queued s
       \<and> busy (snd (proj_eval_next s)) = busy s
       \<and> dialogs (snd (proj_eval_next s)) = dialogs s
       \<and> proj_i (snd (proj_eval_next s)) = proj_i s
       \<and> proj_eval_next (snd (proj_eval_next s)) = proj_eval_next s
       \<and> fst (advance s) = None
       \<and> proj_results (snd (advance s)) = proj_results s
       \<and> proj_tbls (snd (advance s)) = proj_tbls s
       \<and> jobs (snd (advance s)) = jobs s
       \<and> queued (snd (advance s)) = queued s
       \<and> busy (snd (advance s)) = busy s
       \<and> dialogs (snd (advance s)) = dialogs s
       \<and> proj_n (snd (advance s)) \<le> proj_i (snd (advance s))"
  using assms
  by (simp add: proj_eval_next_def advance_def finish_project_eval_def)

lemma finish_project_eval_nothing: "proj_tbls s = [] \<Longrightarrow> finish_project_eval s = s"
  by (simp add: finish_project_eval_def)

theorem finish_project_eval_index_witness:
  "anal_tables (finish_project_eval
      ((init no_engine)\<lparr>proj_tbls := [[(''A'', ''x''), (''B'', ''y'')], [(''B'', ''y''), (''C'', ''z'')]]\<rparr>))
   = [(''A'', ''x''), (''B'', ''y''), (''C'', ''z'')]"
proof -
  let ?s = "(init no_engine)\<lparr>proj_tbls := [[(''A'', ''x''), (''B'', ''y'')], [(''B'', ''y''), (''C'', ''z'')]]\<rparr>"
  have h: "proj_tbls ?s \<noteq> []" by simp
  have "finish_project_eval ?s =
          ?s\<lparr>results := proj_results ?s, anal_tables := drop_duplicates (concat (proj_tbls ?s))\<rparr>"
    using finish_project_eval_index[OF h] by blast
  then show ?thesis by (simp add: drop_duplicates_def)
qed

theorem advance_when_finished_witness:
  "proj_tbls (snd (advance ((init no_engine)\<lparr>proj_n := 2, proj_i := 2, proj_tbls := [[(''A'', ''x'')], []]\<rparr>)))
     = [[(''A'', ''x'')], []]
   \<and> jobs (snd (advance ((init no_engine)\<lparr>proj_n := 2, proj_i := 2, proj_tbls := [[(''A'', ''x'')], []]\<rparr>))) = []"
proof -
  let ?s = "(init no_engine)\<lparr>proj_n := 2, proj_i := 2, proj_tbls := [[(''A'', ''x'')], []]\<rparr>"
  have h: "proj_n ?s \<le> proj_i ?s" by simp
  have "proj_tbls (snd (advance ?s)) = proj_tbls ?s" "jobs (snd (advance ?s)) = jobs ?s"
    using advance_when_finished[OF h] by blast+
  then show ?thesis by (simp add: init_def)
qed

section \<open>The single lane\<close>

lemma exec_luna_busy: "busy s \<Longrightarrow> p s \<noteq> None \<Longrightarrow> exec_luna s = s"
  by (auto simp: exec_luna_def)

lemma lane_inv_exec_luna: "lane_inv s \<Longrightarrow> lane_inv (exec_luna s)"
  by (auto simp: lane_inv_def exec_luna_def Let_def split: option.splits if_splits)

lemma attach_inst_frame [simp]:
  "busy (snd (attach_inst ident s)) = busy s"
  "jobs (snd (attach_inst ident s)) = jobs s"
  "queued (snd (attach_inst ident s)) = queued s"
  "project_mode (snd (attach_inst ident s)) = project_mode s"
  "proj_inst (snd (attach_inst ident s)) = proj_inst s"
  "txt_inp (snd (attach_inst ident s)) = txt_inp s"
  "proj_n (snd (attach_inst ident s)) = proj_n s"
  "proj_i (snd (attach_inst ident s)) = proj_i s"
  "proj_model (snd (attach_inst ident s)) = proj_model s"
  "proj_tbls (snd (attach_inst ident s)) = proj_tbls s"
  "proj_results (snd (attach_inst ident s)) = proj_results s"
  "last_tb (snd (attach_inst ident s)) = last_tb s"
  "last_exc (snd (attach_inst ident s)) = last_exc s"
  by (simp_all add: attach_inst_def clear_all_def Let_def split: sum.splits option.splits)

lemma attach_inst_p:
  "p (snd (attach_inst ident s)) = (case proj_inst s ident of Inl e \<Rightarrow> p s | Inr q \<Rightarrow> Some q)"
  by (simp add: attach_inst_def clear_all_def Let_def split: sum.splits option.splits)

lemma lane_inv_attach_inst: "lane_inv s \<Longrightarrow> lane_inv (snd (attach_inst ident s))"
  by (simp add: lane_inv_def attach_inst_p split: sum.splits)

lemma lane_inv_finish: "lane_inv s \<Longrightarrow> lane_inv (finish_project_eval s)"
  by (auto simp: lane_inv_def finish_project_eval_def split: if_splits)

lemma lane_inv_proj_eval_next: "lane_inv s \<Longrightarrow> lane_inv (snd (proj_eval_next s))"
  by (simp add: proj_eval_next_def Let_def lane_inv_finish lane_inv_exec_luna
      lane_inv_attach_inst split: list.splits option.splits)

lemma lane_inv_frame:
  "busy s' = busy s \<Longrightarrow> p s' = p s \<Longrightarrow> jobs s' = jobs s \<Longrightarrow> queued s' = queued s
   \<Longrightarrow> lane_inv s' = lane_inv s"
  by (simp add: lane_inv_def)

lemma lane_inv_proj_eval: "lane_inv s \<Longrightarrow> lane_inv (snd (proj_eval s))"
proof (cases "slist s")
  case None
  assume "lane_inv s"
  with None show ?thesis by (simp add: proj_eval_def)
next
  case (Some ids)
  assume a: "lane_inv s"
  let ?s = "s\<lparr>project_mode := True, anal_tables := [], anal_model := None,
               proj_model := ids, proj_n := length ids, proj_i := 0,
               proj_tbls := [], proj_results := Map.empty\<rparr>"
  have "lane_inv ?s = lane_inv s" by (rule lane_inv_frame) simp_all
  with a have "lane_inv ?s" by simp
  then have "lane_inv (snd (proj_eval_next ?s))" by (rule lane_inv_proj_eval_next)
  with Some show ?thesis by (simp add: proj_eval_def)
qed

lemma lane_inv_worker_finish: "lane_inv s \<Longrightarrow> lane_inv (worker_finish s)"
  by (auto simp: lane_inv_def worker_finish_def done_callback_def split: list.splits future.splits if_splits)

lemma body_busy [simp]: "busy (snd (eval_done_ok_body s)) = busy s"
  and body_p [simp]: "p (snd (eval_done_ok_body s)) = p s"
  and body_jobs [simp]: "jobs (snd (eval_done_ok_body s)) = jobs s"
  and body_queued [simp]: "queued (snd (eval_done_ok_body s)) = queued s"
  and body_dialogs [simp]: "dialogs (snd (eval_done_ok_body s)) = dialogs s"
  and body_last_tb [simp]: "last_tb (snd (eval_done_ok_body s)) = last_tb s"
  and body_project_mode [simp]: "project_mode (snd (eval_done_ok_body s)) = project_mode s"
  and body_proj_n [simp]: "proj_n (snd (eval_done_ok_body s)) = proj_n s"
  and body_proj_i [simp]: "proj_i (snd (eval_done_ok_body s)) = proj_i s"
  and body_proj_model [simp]: "proj_model (snd (eval_done_ok_body s)) = proj_model s"
  and body_proj_inst [simp]: "proj_inst (snd (eval_done_ok_body s)) = proj_inst s"
  and body_txt_inp [simp]: "txt_inp (snd (eval_done_ok_body s)) = txt_inp s"
  and body_last_exc [simp]: "last_exc (snd (eval_done_ok_body s)) = last_exc s"
  by (simp_all add: eval_done_ok_body_def accumulate_project_results_def render_tables_def
      Let_def split: option.splits sum.splits)

lemma lane_inv_idle: "\<not> busy s \<Longrightarrow> jobs s = [] \<Longrightarrow> queued s = [] \<Longrightarrow> lane_inv s"
  by (simp add: lane_inv_def)

lemma lane_inv_project_advance:
  assumes "jobs s = []" and "queued s = []"
  shows "lane_inv (snd (project_advance (unlock s)))"
proof -
  have a: "lane_inv (unlock s)"
    using assms by (simp add: unlock_def lane_inv_idle)
  have "lane_inv ((unlock s)\<lparr>proj_i := proj_i (unlock s) + 1\<rparr>)"
    using assms by (simp add: unlock_def lane_inv_idle)
  then have b: "lane_inv (snd (advance (unlock s)))"
    unfolding advance_def by (rule lane_inv_proj_eval_next)
  show ?thesis using a b by (simp add: project_advance_def)
qed

lemma lane_inv_run_slot: "lane_inv s \<Longrightarrow> lane_inv (snd (run_slot s))"
proof (cases "queued s")
  case Nil
  assume "lane_inv s"
  with Nil show ?thesis by (simp add: run_slot_def)
next
  case (Cons sl rest)
  assume a: "lane_inv s"
  with Cons have r: "rest = []" and j: "jobs s = []"
    by (auto simp: lane_inv_def split: if_splits)
  show ?thesis
  proof (cases sl)
    case Eval_done_ok
    have "lane_inv (snd (project_advance (unlock (snd (eval_done_ok_body (s\<lparr>queued := rest\<rparr>))))))"
      by (rule lane_inv_project_advance) (simp_all add: r j)
    with Cons Eval_done_ok show ?thesis by (simp add: run_slot_def eval_done_ok_def Let_def)
  next
    case Eval_done_err
    let ?b = "s\<lparr>queued := rest, dialogs := dialogs s @ [Evaluation_error (last_tb s)]\<rparr>"
    have u: "lane_inv (unlock ?b)" by (simp add: unlock_def lane_inv_idle r j)
    have v: "lane_inv (snd (project_advance (unlock ?b)))"
      by (rule lane_inv_project_advance) (simp_all add: r j)
    from u v Cons Eval_done_err show ?thesis
      by (simp add: run_slot_def eval_done_err_def Let_def split: option.splits)
  qed
qed

lemma lane_inv_step: "lane_inv s \<Longrightarrow> lane_inv (step s e)"
proof (cases e)
  case Click_exec
  assume a: "lane_inv s"
  have "lane_inv (s\<lparr>project_mode := False\<rparr>) = lane_inv s" by (rule lane_inv_frame) simp_all
  with a Click_exec show ?thesis by (simp add: exec_single_luna_def lane_inv_exec_luna)
next
  case (Edit_script cmd)
  assume a: "lane_inv s"
  have "lane_inv (s\<lparr>txt_inp := cmd\<rparr>) = lane_inv s" by (rule lane_inv_frame) simp_all
  with a Edit_script show ?thesis by simp
next
  case (Load_slist ids)
  assume a: "lane_inv s"
  have "lane_inv (s\<lparr>slist := Some ids\<rparr>) = lane_inv s" by (rule lane_inv_frame) simp_all
  with a Load_slist show ?thesis by simp
qed (simp_all add: lane_inv_proj_eval lane_inv_attach_inst lane_inv_worker_finish lane_inv_run_slot)

lemma lane_inv_init: "lane_inv (init w)"
  by (simp add: lane_inv_def init_def)

lemma lane_inv_run: "lane_inv s \<Longrightarrow> lane_inv (run s es)"
  unfolding run_def by (induction es arbitrary: s) (simp_all add: lane_inv_step)

text \<open>
  Claim C5. After every sequence of user actions, worker completions and slot runs from
  the initial controller, at most one job is in flight (with the worker or posted as a
  slot call), and if the busy flag is set then \<^verbatim>\<open>_exec_luna\<close> returns the state
  unchanged: the busy flag stays, no job is handed to the worker, no slot call is posted
  and no dialog is shown.
\<close>

theorem single_lane:
  "length (jobs (run (init w) es)) + length (queued (run (init w) es)) \<le> 1
   \<and> (busy (run (init w) es) \<longrightarrow> exec_luna (run (init w) es) = run (init w) es)"
proof -
  have "lane_inv (run (init w) es)"
    by (rule lane_inv_run) (rule lane_inv_init)
  then show ?thesis
    by (auto simp: lane_inv_def exec_luna_busy split: if_splits)
qed

lemmas eval_defs = run_def init_def exec_single_luna_def exec_luna_def attach_inst_def
  clear_all_def submit_def ex_engine_def ex_inst_def proj_eval_def proj_eval_next_def
  finish_project_eval_def worker_finish_def done_callback_def run_slot_def eval_done_ok_def
  eval_done_err_def eval_done_ok_body_def project_advance_def unlock_def advance_def
  accumulate_project_results_def render_tables_def silent_guard_def is_RuntimeError_def
  complete_def Let_def

theorem single_lane_witness:
  "busy (run (init ex_engine) [Select_record ''r1'', Click_exec])
   \<and> exec_luna (run (init ex_engine) [Select_record ''r1'', Click_exec])
       = run (init ex_engine) [Select_record ''r1'', Click_exec]"
proof -
  have b: "busy (run (init ex_engine) [Select_record ''r1'', Click_exec])"
    by (simp add: eval_defs)
  with single_lane[of ex_engine "[Select_record ''r1'', Click_exec]"] show ?thesis by blast
qed

lemmas table_defs = merge_into_def key_of_def concat_df_def ex_df_def



end
